theory Spec2Isabelle
  imports
    Main
    "HOL-Library.Finite_Map"
    "HOL-Library.List_Lexorder"
    "HOL-Library.Char_ord"
    "HOL-Library.Multiset"
begin

section \<open>The Remember The Milk client: signing, URLs, the call engine\<close>

text \<open>
  A shallow embedding of \<^verbatim>\<open>client.go\<close>. Go strings and byte slices are
  sequences of bytes: \<^typ>\<open>string\<close>, whose order (from \<open>List_Lexorder\<close> and
  \<open>Char_ord\<close>) is the bytewise lexicographic order that Go's \<^verbatim>\<open><\<close> on
  strings and \<^verbatim>\<open>sort.Strings\<close> use. Go maps are finite maps. Functions of
  the Go standard library and of the Go runtime that the client calls are not part of
  the repository; the simple ones are written out after their documentation, the
  others are fields of the records \<open>runtime\<close> and \<open>http_env\<close> below.
\<close>

subsection \<open>Data\<close>

type_synonym bytes = string

text \<open>\<^verbatim>\<open>url.Values\<close> is \<^verbatim>\<open>map[string][]string\<close>, \<^verbatim>\<open>Args\<close> is
  \<^verbatim>\<open>map[string]string\<close>, \<^verbatim>\<open>Perms\<close> is a string type with three constants.\<close>

type_synonym Values = "(string, string list) fmap"

type_synonym Args = "(string, string) fmap"

type_synonym Perms = string

definition Read :: Perms where "Read = ''read''"

definition Write :: Perms where "Write = ''write''"

definition Delete :: Perms where "Delete = ''delete''"

text \<open>\<^verbatim>\<open>url.URL\<close>, with the fields the client sets.\<close>

record URL =
  Scheme :: string
  Host :: string
  Path :: string
  RawQuery :: string

definition authEndpoint :: URL where
  "authEndpoint =
     \<lparr>Scheme = ''https'', Host = ''api.rememberthemilk.com'', Path = ''/services/auth/'',
      RawQuery = ''''\<rparr>"

definition restEndpoint :: URL where
  "restEndpoint =
     \<lparr>Scheme = ''https'', Host = ''api.rememberthemilk.com'', Path = ''/services/rest/'',
      RawQuery = ''''\<rparr>"

definition userAgent :: string where
  "userAgent = ''github.com/AlekSi/rtm''"

text \<open>An HTTP request as \<^verbatim>\<open>post\<close> builds it, and a response as it reads it. A
  response body is a stream: the bytes it delivers, then the end of the stream or a
  read error. Status codes and error codes are Go \<^verbatim>\<open>int\<close>s on which no
  arithmetic is done.\<close>

record 'ctx Request =
  Method :: string
  ReqURL :: string
  Header :: "(string, string list) fmap"
  Context :: 'ctx

datatype 'n ReadCloser = Stream bytes "'n option"

record 'n Response =
  StatusCode :: int
  Body :: "'n ReadCloser"

text \<open>The type \<^verbatim>\<open>Error\<close> of the client, and the Go \<^verbatim>\<open>error\<close> values the
  client returns: a value made by \<^verbatim>\<open>fmt.Errorf\<close> (only a message), a pointer to
  an \<^verbatim>\<open>Error\<close>, an error of the network libraries (\<^verbatim>\<open>net/http\<close>,
  \<^verbatim>\<open>httputil\<close>, \<^verbatim>\<open>ioutil\<close>), an error of \<^verbatim>\<open>encoding/xml\<close>.\<close>

record Error =
  Code :: int
  Msg :: string

datatype ('n, 'x) error =
    ErrorString string
  | APIError Error
  | NetError 'n
  | XMLError 'x

text \<open>The effects of a call happen in a world \<open>'w\<close>: the debug logger and the HTTP
  client are functions on it. An \<^verbatim>\<open>http.Client\<close> is its method \<^verbatim>\<open>Do\<close>,
  which returns a response, an error, or (when a redirect is refused) both.\<close>

type_synonym ('ctx, 'n, 'w) http_Client =
  "'ctx Request \<Rightarrow> 'w \<Rightarrow> ('n Response option \<times> 'n option) \<times> 'w"

record ('ctx, 'n, 'w) Client =
  APIKey :: string
  APISecret :: string
  AuthToken :: string
  HTTPClient :: "('ctx, 'n, 'w) http_Client option"
  DebugLogger :: "(string \<Rightarrow> 'w \<Rightarrow> 'w) option"

text \<open>What the client takes from the Go runtime and from \<^verbatim>\<open>crypto/md5\<close> and
  \<^verbatim>\<open>fmt\<close>: the digest function, the order in which a \<^verbatim>\<open>range\<close> loop
  delivers the entries of a map (the runtime chooses it, and may choose another one
  at every loop), and the quoting of the verb \<^verbatim>\<open>%q\<close>.\<close>

record runtime =
  md5_Sum :: "bytes \<Rightarrow> bytes"
  range_Values :: "Values \<Rightarrow> string list"
  range_Args :: "Args \<Rightarrow> (string \<times> string) list"
  Quote :: "string \<Rightarrow> string"

text \<open>A \<^verbatim>\<open>range\<close> loop delivers every key of the map once.\<close>

definition range_ok :: "runtime \<Rightarrow> bool" where
  "range_ok rt \<longleftrightarrow>
     (\<forall>q. distinct (range_Values rt q) \<and> fset_of_list (range_Values rt q) = fmdom q) \<and>
     (\<forall>a. distinct (map fst (range_Args rt a)) \<and> fmap_of_list (range_Args rt a) = a)"

subsection \<open>\<^verbatim>\<open>url.Values\<close> and \<^verbatim>\<open>encoding/hex\<close>\<close>

definition Values_Get :: "Values \<Rightarrow> string \<Rightarrow> string" where
  "Values_Get v key =
     (case fmlookup v key of None \<Rightarrow> '''' | Some [] \<Rightarrow> '''' | Some (x # _) \<Rightarrow> x)"

definition Values_Set :: "Values \<Rightarrow> string \<Rightarrow> string \<Rightarrow> Values" where
  "Values_Set v key val = fmupd key [val] v"

definition hextable :: string where
  "hextable = ''0123456789abcdef''"

fun EncodeToString :: "bytes \<Rightarrow> string" where
  "EncodeToString [] = []"
| "EncodeToString (v # src) =
     hextable ! (of_char v div 16) # hextable ! (of_char v mod 16) # EncodeToString src"

subsection \<open>\<^verbatim>\<open>sign\<close>\<close>

text \<open>The two loops of \<^verbatim>\<open>sign\<close>: the first appends the keys in the order the
  runtime delivers them, the second appends key and value to the string to sign.
  The map is updated in place; the model returns it.\<close>

definition sign :: "runtime \<Rightarrow> ('ctx, 'n, 'w) Client \<Rightarrow> Values \<Rightarrow> Values" where
  "sign rt c q =
     (let keys = foldl (\<lambda>keys k. keys @ [k]) [] (range_Values rt q);
          keys = sort keys;
          sts = foldl (\<lambda>sts k. sts @ (k @ Values_Get q k)) (APISecret c) keys;
          sum = md5_Sum rt sts
      in Values_Set q ''api_sig'' (EncodeToString sum))"

subsection \<open>The signature as the specification words it\<close>

text \<open>The secret, then for each key in ascending order the key and its value.\<close>

definition string_to_sign :: "string \<Rightarrow> Values \<Rightarrow> string" where
  "string_to_sign s q =
     s @ concat (map (\<lambda>k. k @ Values_Get q k) (sorted_list_of_fset (fmdom q)))"

definition hex_digit :: "nat \<Rightarrow> char" where
  "hex_digit n = (if n < 10 then char_of (48 + n) else char_of (87 + n))"

definition lower_hex :: "bytes \<Rightarrow> string" where
  "lower_hex bs = concat (map (\<lambda>b. [hex_digit (of_char b div 16), hex_digit (of_char b mod 16)]) bs)"

definition spec_signature :: "(bytes \<Rightarrow> bytes) \<Rightarrow> string \<Rightarrow> Values \<Rightarrow> string" where
  "spec_signature digest s q = lower_hex (digest (string_to_sign s q))"

text \<open>A parameter set built by inserting entries one after the other.\<close>

definition Values_of :: "(string \<times> string) list \<Rightarrow> Values" where
  "Values_of kvs = fold (\<lambda>(k, v) q. Values_Set q k v) kvs fmempty"

subsection \<open>\<^verbatim>\<open>net/url\<close>, \<^verbatim>\<open>fmt\<close>, \<^verbatim>\<open>io/ioutil\<close>, \<^verbatim>\<open>httputil\<close>\<close>

text \<open>\<^verbatim>\<open>url.QueryEscape\<close>: letters, digits and \<^verbatim>\<open>-_.~\<close> stay, a space
  becomes \<^verbatim>\<open>+\<close>, every other byte becomes \<^verbatim>\<open>%XX\<close> in upper-case
  hexadecimal.\<close>

definition upperhex :: string where
  "upperhex = ''0123456789ABCDEF''"

definition in_range :: "char \<Rightarrow> char \<Rightarrow> char \<Rightarrow> bool" where
  "in_range lo hi c \<longleftrightarrow> lo \<le> c \<and> c \<le> hi"

definition shouldEscape :: "char \<Rightarrow> bool" where
  "shouldEscape c \<longleftrightarrow>
     (if in_range (CHR ''a'') (CHR ''z'') c \<or> in_range (CHR ''A'') (CHR ''Z'') c
         \<or> in_range (CHR ''0'') (CHR ''9'') c
      then False
      else c \<notin> set ''-_.~'')"

fun QueryEscape :: "string \<Rightarrow> string" where
  "QueryEscape [] = []"
| "QueryEscape (c # s) =
     (if c = CHR '' '' then ''+'' @ QueryEscape s
      else if shouldEscape c then
        CHR ''%'' # upperhex ! (of_char c div 16) # upperhex ! (of_char c mod 16) # QueryEscape s
      else c # QueryEscape s)"

text \<open>\<^verbatim>\<open>Values.Encode\<close>: the keys in ascending order, every value of a key as
  \<^verbatim>\<open>key=value\<close>, joined by \<^verbatim>\<open>&\<close>.\<close>

definition Values_Encode :: "Values \<Rightarrow> string" where
  "Values_Encode v =
     foldl (\<lambda>buf k.
        foldl (\<lambda>buf x. (if buf \<noteq> [] then buf @ ''&'' else buf) @ QueryEscape k @ ''='' @ QueryEscape x)
          buf (case fmlookup v k of None \<Rightarrow> [] | Some vs \<Rightarrow> vs))
       [] (sorted_list_of_fset (fmdom v))"

text \<open>\<^verbatim>\<open>URL.String\<close> for a URL with a scheme and a host, whose host and path
  need no escaping, as both endpoints are.\<close>

definition URL_String :: "URL \<Rightarrow> string" where
  "URL_String u =
     Scheme u @ '':'' @ ''//'' @ Host u @ Path u @
     (if RawQuery u \<noteq> [] then ''?'' @ RawQuery u else [])"

text \<open>The verb \<^verbatim>\<open>%d\<close>.\<close>

fun FormatNat :: "nat \<Rightarrow> string" where
  "FormatNat n =
     (if n < 10 then [char_of (48 + n)] else FormatNat (n div 10) @ [char_of (48 + n mod 10)])"

definition FormatInt :: "int \<Rightarrow> string" where
  "FormatInt i = (if i < 0 then ''-'' @ FormatNat (nat (- i)) else FormatNat (nat i))"

text \<open>\<^verbatim>\<open>ioutil.ReadAll\<close> on a body, and \<^verbatim>\<open>httputil.DumpResponse\<close> with
  its body flag set: it reads the body to its end, fails when that fails, and
  otherwise puts a copy of the bytes read in the place of the body. The text of the
  dump is a parameter.\<close>

fun ReadAll :: "'n ReadCloser \<Rightarrow> 'n + bytes" where
  "ReadAll (Stream b None) = Inr b"
| "ReadAll (Stream b (Some e)) = Inl e"

definition DumpResponse ::
  "('n Response \<Rightarrow> bytes \<Rightarrow> string) \<Rightarrow> 'n Response \<Rightarrow> ('n + string) \<times> 'n Response" where
  "DumpResponse text resp =
     (case ReadAll (Body resp) of
        Inl e \<Rightarrow> (Inl e, resp)
      | Inr b \<Rightarrow> (Inr (text resp b), resp\<lparr>Body := Stream b None\<rparr>))"

text \<open>The struct that \<^verbatim>\<open>Call\<close> decodes the envelope into, and the rest of
  what the client takes from the libraries: \<^verbatim>\<open>http.NewRequest\<close>,
  \<^verbatim>\<open>httputil.DumpRequestOut\<close>, the text of a response dump,
  \<^verbatim>\<open>http.DefaultClient\<close>, and \<^verbatim>\<open>xml.Unmarshal\<close>, which returns its
  error and leaves its result in the struct.\<close>

record rsp =
  Stat :: string
  Err :: "Error option"
  Inner :: bytes

record ('ctx, 'n, 'x, 'w) http_env =
  NewRequest :: "string \<Rightarrow> string \<Rightarrow> 'n + 'ctx Request"
  DumpRequestOut :: "'ctx Request \<Rightarrow> 'n + string"
  DumpResponse_text :: "'n Response \<Rightarrow> bytes \<Rightarrow> string"
  DefaultClient :: "('ctx, 'n, 'w) http_Client"
  Unmarshal :: "bytes \<Rightarrow> 'x option \<times> rsp"

subsection \<open>The client\<close>

definition http :: "('ctx, 'n, 'x, 'w) http_env \<Rightarrow> ('ctx, 'n, 'w) Client \<Rightarrow> ('ctx, 'n, 'w) http_Client" where
  "http he c = (case HTTPClient c of None \<Rightarrow> DefaultClient he | Some h \<Rightarrow> h)"

definition AuthenticationURL :: "runtime \<Rightarrow> ('ctx, 'n, 'w) Client \<Rightarrow> Perms \<Rightarrow> string \<Rightarrow> string" where
  "AuthenticationURL rt c perms frob =
     (let q = fmempty;
          q = Values_Set q ''api_key'' (APIKey c);
          q = Values_Set q ''perms'' perms;
          q = (if frob \<noteq> '''' then Values_Set q ''frob'' frob else q);
          q = sign rt c q;
          u = authEndpoint;
          u = u\<lparr>RawQuery := Values_Encode q\<rparr>
      in URL_String u)"

text \<open>\<^verbatim>\<open>post\<close>, in the parts of its body: the parameters (up to the call of
  \<^verbatim>\<open>sign\<close>), the request, the dump of the request, the dump of the response,
  and the result. A failed step returns at once. Reading the status of a response
  that is not there is a run-time panic. The deferred closing of the body has no
  part in the result and is left out.\<close>

definition post_params :: "runtime \<Rightarrow> ('ctx, 'n, 'w) Client \<Rightarrow> string \<Rightarrow> Args \<Rightarrow> string \<Rightarrow> Values" where
  "post_params rt c method args format =
     (let q = fmempty;
          q = fold (\<lambda>(k, v) q. Values_Set q k v) (range_Args rt args) q;
          q = Values_Set q ''v'' ''2'';
          q = Values_Set q ''method'' method;
          q = (if format \<noteq> '''' then Values_Set q ''format'' format else q);
          q = Values_Set q ''api_key'' (APIKey c);
          q = (if AuthToken c \<noteq> '''' then Values_Set q ''auth_token'' (AuthToken c) else q)
      in q)"

definition post_dump_request ::
  "('ctx, 'n, 'x, 'w) http_env \<Rightarrow> ('ctx, 'n, 'w) Client \<Rightarrow> 'ctx Request \<Rightarrow> 'w \<Rightarrow> 'n + 'w" where
  "post_dump_request he c req w =
     (case DebugLogger c of
        None \<Rightarrow> Inr w
      | Some logger \<Rightarrow>
          (case DumpRequestOut he req of
             Inl err \<Rightarrow> Inl err
           | Inr b \<Rightarrow> Inr (logger b w)))"

definition post_dump_response ::
  "('ctx, 'n, 'x, 'w) http_env \<Rightarrow> ('ctx, 'n, 'w) Client \<Rightarrow> 'n Response option \<Rightarrow> 'w \<Rightarrow>
     'n + 'n Response option \<times> 'w" where
  "post_dump_response he c resp w =
     (case resp of
        None \<Rightarrow> Inr (None, w)
      | Some r \<Rightarrow>
          (case DebugLogger c of
             None \<Rightarrow> Inr (Some r, w)
           | Some logger \<Rightarrow>
               (case DumpResponse (DumpResponse_text he) r of
                  (Inl err, r) \<Rightarrow> Inl err
                | (Inr b, r) \<Rightarrow> Inr (Some r, logger b w))))"

datatype ('n, 'x) outcome = Panic | Failed "('n, 'x) error" | Returned bytes

definition post_result :: "'n Response option \<Rightarrow> 'n option \<Rightarrow> ('n, 'x) outcome" where
  "post_result resp err =
     (case err of
        Some e \<Rightarrow> Failed (NetError e)
      | None \<Rightarrow>
          (case resp of
             None \<Rightarrow> Panic
           | Some r \<Rightarrow>
               if StatusCode r \<noteq> 200 then
                 Failed (ErrorString (''HTTP status code '' @ FormatInt (StatusCode r)))
               else (case ReadAll (Body r) of Inl e \<Rightarrow> Failed (NetError e) | Inr b \<Rightarrow> Returned b)))"

definition post_request ::
  "runtime \<Rightarrow> ('ctx, 'n, 'x, 'w) http_env \<Rightarrow> ('ctx, 'n, 'w) Client \<Rightarrow>
     'ctx \<Rightarrow> string \<Rightarrow> Args \<Rightarrow> string \<Rightarrow> 'n + 'ctx Request" where
  "post_request rt he c ctx method args format =
     (let q = sign rt c (post_params rt c method args format);
          u = restEndpoint;
          u = u\<lparr>RawQuery := Values_Encode q\<rparr>
      in case NewRequest he ''POST'' (URL_String u) of
           Inl err \<Rightarrow> Inl err
         | Inr req \<Rightarrow>
             (let req = req\<lparr>Context := ctx\<rparr>;
                  req = req\<lparr>Header := fmupd ''User-Agent'' [userAgent] (Header req)\<rparr>
              in Inr req))"

definition post ::
  "runtime \<Rightarrow> ('ctx, 'n, 'x, 'w) http_env \<Rightarrow> ('ctx, 'n, 'w) Client \<Rightarrow>
     'ctx \<Rightarrow> string \<Rightarrow> Args \<Rightarrow> string \<Rightarrow> 'w \<Rightarrow> ('n, 'x) outcome \<times> 'w" where
  "post rt he c ctx method args format w =
     (case post_request rt he c ctx method args format of
        Inl err \<Rightarrow> (Failed (NetError err), w)
      | Inr req \<Rightarrow>
          (case post_dump_request he c req w of
             Inl err \<Rightarrow> (Failed (NetError err), w)
           | Inr w \<Rightarrow>
               (case http he c req w of
                  ((resp, err), w) \<Rightarrow>
                    (case post_dump_response he c resp w of
                       Inl err \<Rightarrow> (Failed (NetError err), w)
                     | Inr (resp, w) \<Rightarrow> (post_result resp err, w)))))"

text \<open>\<^verbatim>\<open>Error.Error\<close> and \<^verbatim>\<open>Call\<close>.\<close>

definition Error_Error :: "Error \<Rightarrow> string" where
  "Error_Error e = FormatInt (Code e) @ '': '' @ Msg e"

definition Call ::
  "runtime \<Rightarrow> ('ctx, 'n, 'x, 'w) http_env \<Rightarrow> ('ctx, 'n, 'w) Client \<Rightarrow>
     'ctx \<Rightarrow> string \<Rightarrow> Args \<Rightarrow> 'w \<Rightarrow> ('n, 'x) outcome \<times> 'w" where
  "Call rt he c ctx method args w =
     (case post rt he c ctx method args '''' w of
        (Panic, w) \<Rightarrow> (Panic, w)
      | (Failed err, w) \<Rightarrow> (Failed err, w)
      | (Returned b, w) \<Rightarrow>
          (case Unmarshal he b of
             (Some err, r) \<Rightarrow> (Failed (XMLError err), w)
           | (None, r) \<Rightarrow>
               (case Err r of
                  Some e \<Rightarrow> (Failed (APIError e), w)
                | None \<Rightarrow>
                    if Stat r \<noteq> ''ok'' then
                      (Failed (ErrorString (''unexpected stat '' @ Quote rt (Stat r))), w)
                    else (Returned (Inner r), w))))"

subsection \<open>A runtime and a client for the examples\<close>

text \<open>In the examples the runtime delivers the entries of a map in descending
  order of the keys, the digest is a two-byte checksum (the length and the sum of
  the bytes) standing in for MD5, and \<^verbatim>\<open>%q\<close> puts its argument between double
  quotes, as it does for letters and digits.\<close>

definition ex_digest :: "bytes \<Rightarrow> bytes" where
  "ex_digest s = [char_of (length s), char_of (sum_list (map of_char s) :: nat)]"

definition ex_runtime :: runtime where
  "ex_runtime =
     \<lparr>md5_Sum = ex_digest,
      range_Values = (\<lambda>q. rev (sorted_list_of_fset (fmdom q))),
      range_Args = (\<lambda>a. rev (sorted_list_of_fmap a)),
      Quote = (\<lambda>s. [CHR 0x22] @ s @ [CHR 0x22])\<rparr>"

definition ex_client :: "(unit, string, string list) Client" where
  "ex_client =
     \<lparr>APIKey = ''abc123'', APISecret = ''BANANAS'', AuthToken = '''',
      HTTPClient = None, DebugLogger = None\<rparr>"

definition ex_params :: Values where
  "ex_params = Values_of [(''yxz'', ''foo''), (''feg'', ''bar''), (''abc'', ''baz'')]"

section \<open>Properties\<close>

subsection \<open>Loops, sorting, hexadecimal digits\<close>

lemma keys_loop: "foldl (\<lambda>keys k. keys @ [k]) acc ks = acc @ ks"
  by (induction ks arbitrary: acc) simp_all

lemma sts_loop: "foldl (\<lambda>sts k. sts @ f k) acc ks = acc @ concat (map f ks)"
  by (induction ks arbitrary: acc) simp_all

lemma sort_range:
  assumes "distinct ks" and "fset_of_list ks = S"
  shows "sort ks = sorted_list_of_fset S"
proof -
  have "set ks = fset S"
    using assms(2) by (metis fset_of_list.rep_eq)
  then have "sorted_list_of_fset S = sort (remdups ks)"
    by (simp add: sorted_list_of_fset.rep_eq sorted_list_of_set_sort_remdups[symmetric])
  with assms(1) show ?thesis
    by (simp add: distinct_remdups_id)
qed

lemma hextable_digits: "list_all (\<lambda>n. hextable ! n = hex_digit n) [0..<16]"
  by code_simp

lemma hextable_digit: "n < 16 \<Longrightarrow> hextable ! n = hex_digit n"
  using hextable_digits by (simp add: list_all_iff)

lemma nibbles: "of_char (b::char) div 16 < (16::nat)" "of_char b mod 16 < (16::nat)"
proof -
  have "of_char b < (256::nat)" by simp
  then show "of_char b div 16 < (16::nat)" by arith
  show "of_char b mod 16 < (16::nat)" by simp
qed

lemma EncodeToString_lower_hex: "EncodeToString bs = lower_hex bs"
  by (induction bs) (simp_all add: lower_hex_def hextable_digit nibbles)

lemma sign_signature:
  assumes "range_ok rt"
  shows "sign rt c q = fmupd ''api_sig'' [spec_signature (md5_Sum rt) (APISecret c) q] q"
proof -
  have "sort (range_Values rt q) = sorted_list_of_fset (fmdom q)"
    using assms by (intro sort_range) (simp_all add: range_ok_def)
  then show ?thesis
    by (simp add: sign_def Let_def keys_loop sts_loop[where f="\<lambda>k. k @ Values_Get q k"]
        Values_Set_def spec_signature_def string_to_sign_def EncodeToString_lower_hex)
qed

lemma sign_upd: "\<exists>s. sign rt c q = fmupd ''api_sig'' [s] q"
  unfolding sign_def Let_def Values_Set_def by blast

lemma sorted_list_of_fset_empty: "sorted_list_of_fset {||} = []"
  by (simp add: sorted_list_of_fset.rep_eq)

lemma map_of_perm:
  assumes "distinct (map fst xs)" and "mset ys = mset xs"
  shows "map_of ys = map_of xs"
proof -
  have "mset (map fst ys) = mset (map fst xs)"
    using assms(2) by simp
  then have "distinct (map fst ys)"
    using assms(1) by (metis mset_eq_imp_distinct_iff)
  moreover have "set ys = set xs"
    using assms(2) by (rule mset_eq_setD)
  ultimately show ?thesis
    using assms(1) by (simp add: map_of_inject_set)
qed

lemma distinct_sorted_list_of_fset: "distinct (sorted_list_of_fset S)"
  by (simp add: sorted_list_of_fset.rep_eq)

lemma distinct_keys_sorted_list_of_fmap: "distinct (map fst (sorted_list_of_fmap a))"
  by (simp add: sorted_list_of_fmap_def comp_def distinct_sorted_list_of_fset)

lemma fmap_of_list_rev_sorted: "fmap_of_list (rev (sorted_list_of_fmap a)) = a"
proof (rule fmap_ext)
  fix k
  have "map_of (rev (sorted_list_of_fmap a)) = map_of (sorted_list_of_fmap a)"
    by (rule map_of_perm) (simp_all add: distinct_keys_sorted_list_of_fmap)
  then show "fmlookup (fmap_of_list (rev (sorted_list_of_fmap a))) k = fmlookup a k"
    by (simp add: fmlookup_of_list)
qed

lemma range_ok_ex_runtime: "range_ok ex_runtime"
  by (simp add: range_ok_def ex_runtime_def distinct_sorted_list_of_fset
      distinct_keys_sorted_list_of_fmap fmap_of_list_rev_sorted rev_map[symmetric])

lemma ex_params_eq:
  "ex_params = fmupd ''abc'' [''baz''] (fmupd ''feg'' [''bar''] (fmupd ''yxz'' [''foo''] fmempty))"
  by (simp add: ex_params_def Values_of_def Values_Set_def)

subsection \<open>The signature\<close>

text \<open>Claim C1. For every parameter set \<open>q\<close> and every secret, whatever the order in
  which the runtime delivers the keys, \<^verbatim>\<open>sign\<close> stores under \<^verbatim>\<open>api_sig\<close> the
  lower-case hexadecimal digits of the digest of the secret followed by, for each key
  of \<open>q\<close> in ascending order, the key and its value; for the empty parameter set the
  digest is that of the secret alone.\<close>

theorem sign_is_spec_signature:
  assumes "range_ok rt"
  shows "fmlookup (sign rt c q) ''api_sig'' = Some [spec_signature (md5_Sum rt) (APISecret c) q]
    \<and> spec_signature (md5_Sum rt) (APISecret c) q =
        lower_hex (md5_Sum rt
          (APISecret c @ concat (map (\<lambda>k. k @ Values_Get q k) (sorted_list_of_fset (fmdom q)))))
    \<and> fmlookup (sign rt c fmempty) ''api_sig'' = Some [lower_hex (md5_Sum rt (APISecret c))]"
  using assms
  by (simp add: sign_signature spec_signature_def string_to_sign_def sorted_list_of_fset_empty)

theorem sign_is_spec_signature_witness:
  "range_ok ex_runtime
   \<and> fmlookup (sign ex_runtime ex_client ex_params) ''api_sig'' =
       Some [lower_hex (ex_digest ''BANANASabcbazfegbaryxzfoo'')]"
proof -
  have keys: "sorted_list_of_fset (fmdom ex_params) = [''abc'', ''feg'', ''yxz'']"
    unfolding ex_params_eq by code_simp
  have "spec_signature ex_digest ''BANANAS'' ex_params =
      lower_hex (ex_digest ''BANANASabcbazfegbaryxzfoo'')"
    by (simp add: spec_signature_def string_to_sign_def keys)
      (simp add: ex_params_eq Values_Get_def)
  moreover have "md5_Sum ex_runtime = ex_digest" and "APISecret ex_client = ''BANANAS''"
    by (simp_all add: ex_runtime_def ex_client_def)
  ultimately show ?thesis
    using sign_is_spec_signature[OF range_ok_ex_runtime, of ex_client ex_params]
    by (simp add: range_ok_ex_runtime)
qed

text \<open>Claim C9. \<^verbatim>\<open>sign\<close> changes the parameter set only at the key
  \<^verbatim>\<open>api_sig\<close>: every other key maps to what it mapped to before, and the keys
  afterwards are the keys before and \<^verbatim>\<open>api_sig\<close>.\<close>

theorem sign_frame:
  "(\<forall>k. k \<noteq> ''api_sig'' \<longrightarrow> fmlookup (sign rt c q) k = fmlookup q k)
   \<and> fmdom (sign rt c q) = finsert ''api_sig'' (fmdom q)"
  using sign_upd[of rt c q] by auto

theorem sign_frame_witness:
  "''abc'' \<noteq> ''api_sig''
   \<and> fmlookup (sign ex_runtime ex_client ex_params) ''abc'' = Some [''baz'']
   \<and> fmdom (sign ex_runtime ex_client ex_params) = {|''api_sig'', ''abc'', ''feg'', ''yxz''|}"
  using sign_frame[of ex_runtime ex_client ex_params]
  by (simp add: ex_params_eq)

end
